theory Spec2Isabelle
  imports Main
begin

section \<open>JavaScript strings\<close>

text \<open>
  Text is modelled as \<^typ>\<open>string\<close>: a list of 8-bit characters, read as the UTF-16
  code units below 256 (the Latin-1 range of a JavaScript string). The built-in string
  operations the repository calls are written out for that range.
\<close>

definition lower_char :: "char \<Rightarrow> char" where
  \<comment> \<open>A-Z and the upper-case letters of Latin-1 (U+00C0..U+00DE without the
      multiplication sign U+00D7) move up by 32; everything else is kept.\<close>
  "lower_char c =
     (let n = (of_char c :: nat)
      in if (65 \<le> n \<and> n \<le> 90) \<or> (192 \<le> n \<and> n \<le> 222 \<and> n \<noteq> 215)
         then char_of (n + 32) else c)"

definition toLowerCase :: "string \<Rightarrow> string" where
  "toLowerCase s = map lower_char s"

fun startsWith :: "string \<Rightarrow> string \<Rightarrow> bool" where
  "startsWith s [] = True"
| "startsWith [] (q # qs) = False"
| "startsWith (c # cs) (q # qs) = (c = q \<and> startsWith cs qs)"

fun includesStr :: "string \<Rightarrow> string \<Rightarrow> bool" where
  \<comment> \<open>\<open>s.includes(q)\<close>: \<open>q\<close> occurs in \<open>s\<close> as a contiguous run.\<close>
  "includesStr [] q = (q = [])"
| "includesStr (c # cs) q = (startsWith (c # cs) q \<or> includesStr cs q)"

definition isWhiteSpace :: "char \<Rightarrow> bool" where
  \<comment> \<open>WhiteSpace and LineTerminator of ECMAScript below 256: TAB, LF, VT, FF, CR,
      SP and NBSP.\<close>
  "isWhiteSpace c = ((of_char c :: nat) \<in> {9, 10, 11, 12, 13, 32, 160})"

definition trim :: "string \<Rightarrow> string" where
  "trim s = rev (dropWhile isWhiteSpace (rev (dropWhile isWhiteSpace s)))"


section \<open>Data model\<close>

text \<open>The domain memo (\<open>Memo\<close> of \<open>@/types/memo\<close>); \<open>summary\<close> is optional.\<close>

record Memo =
  memo_id :: string
  title :: string
  content :: string
  category :: string
  tags :: "string list"
  summary :: "string option"
  createdAt :: string
  updatedAt :: string

text \<open>
  A row of the backend table \<open>memos\<close>. The columns \<open>tags\<close> and \<open>summary\<close> are
  nullable (\<open>None\<close> is SQL null).
\<close>

record row =
  col_id :: string
  col_title :: string
  col_content :: string
  col_category :: string
  col_tags :: "string list option"
  col_summary :: "string option"
  created_at :: string
  updated_at :: string

text \<open>
  Modelled from the spec: the type \<open>MemoFormData\<close> is declared in \<open>@/types/memo\<close>,
  which is not among the sources; the fields are the editable ones of the memo entity
  (title, content, category, tags).
\<close>

record MemoFormData =
  form_title :: string
  form_content :: string
  form_category :: string
  form_tags :: "string list"


section \<open>Storage client\<close>

text \<open>
  The error object of the table client, and what a query builder gives when awaited:
  the promise rejects, or it resolves to \<open>{ data, error }\<close>.
\<close>

record pg_error =
  code :: string
  message :: string

datatype thrown = PostgrestError pg_error | TypeError | Rejected string

datatype 'a reply = Rejects thrown | Resolves "'a option" "pg_error option"

text \<open>The requests the repository sends on table \<open>memos\<close>.\<close>

datatype update_payload =
    FullUpdate string string string "string list" "string option" string
      \<comment> \<open>title, content, category, tags, summary, \<open>updated_at\<close>\<close>
  | SummaryUpdate string string  \<comment> \<open>summary, \<open>updated_at\<close>\<close>
  | TagsUpdate "string list" string  \<comment> \<open>tags, \<open>updated_at\<close>\<close>

datatype query =
    SelectAll  \<comment> \<open>\<open>select('*').order('created_at', descending)\<close>\<close>
  | SelectCategory string  \<comment> \<open>the same with \<open>eq('category', c)\<close>\<close>
  | SelectById string  \<comment> \<open>\<open>select('*').eq('id', id).single()\<close>\<close>
  | Insert row  \<comment> \<open>\<open>insert(row).select().single()\<close>\<close>
  | Update string update_payload  \<comment> \<open>\<open>update(payload).eq('id', id).select().single()\<close>\<close>
  | Delete string  \<comment> \<open>\<open>delete().eq('id', id)\<close>\<close>

text \<open>
  The backend is a parameter: any function from requests to replies. Queries ending in
  \<open>single()\<close> resolve to one row, the others to a list of rows.
\<close>

record backend =
  run_many :: "query \<Rightarrow> row list reply"
  run_single :: "query \<Rightarrow> row reply"


section \<open>Memo repository\<close>

definition toMemo :: "row \<Rightarrow> Memo" where
  \<comment> \<open>The object literal every operation builds from a row:
      \<open>tags: data.tags || []\<close>, \<open>summary: data.summary || undefined\<close>.\<close>
  "toMemo r =
     \<lparr> memo_id = col_id r,
       title = col_title r,
       content = col_content r,
       category = col_category r,
       tags = (case col_tags r of None \<Rightarrow> [] | Some ts \<Rightarrow> ts),
       summary = (case col_summary r of None \<Rightarrow> None
                  | Some s \<Rightarrow> if s = [] then None else Some s),
       createdAt = created_at r,
       updatedAt = updated_at r \<rparr>"

definition orNull :: "string option \<Rightarrow> string option" where
  \<comment> \<open>\<open>memo.summary || null\<close>: an absent or empty summary is stored as null.\<close>
  "orNull s = (case s of None \<Rightarrow> None | Some t \<Rightarrow> if t = [] then None else Some t)"

definition listResult :: "row list reply \<Rightarrow> thrown + Memo list" where
  \<comment> \<open>Body of the \<open>try\<close> block of the listing operations:
      \<open>if (error) throw error; return data?.map(...) || []\<close>.\<close>
  "listResult r =
     (case r of
        Rejects e \<Rightarrow> Inl e
      | Resolves d err \<Rightarrow>
          (case err of
             Some e \<Rightarrow> Inl (PostgrestError e)
           | None \<Rightarrow> (case d of None \<Rightarrow> Inr [] | Some rows \<Rightarrow> Inr (map toMemo rows))))"

definition singleResult :: "row reply \<Rightarrow> thrown + Memo" where
  \<comment> \<open>Body of the \<open>try\<close> block of the operations that return one memo:
      \<open>if (error) throw error; return { id: data.id, ... }\<close>. Reading a field of a
      null \<open>data\<close> throws a TypeError.\<close>
  "singleResult r =
     (case r of
        Rejects e \<Rightarrow> Inl e
      | Resolves d err \<Rightarrow>
          (case err of
             Some e \<Rightarrow> Inl (PostgrestError e)
           | None \<Rightarrow> (case d of None \<Rightarrow> Inl TypeError | Some x \<Rightarrow> Inr (toMemo x))))"

definition memoRepository_getMemos :: "backend \<Rightarrow> Memo list" where
  \<comment> \<open>\<open>catch\<close>: log and return \<open>[]\<close>.\<close>
  "memoRepository_getMemos b =
     (case listResult (run_many b SelectAll) of Inl e \<Rightarrow> [] | Inr ms \<Rightarrow> ms)"

definition insertPayload :: "Memo \<Rightarrow> row" where
  \<comment> \<open>The object \<open>addMemo\<close> passes to \<open>insert\<close>.\<close>
  "insertPayload memo =
     \<lparr> col_id = memo_id memo,
       col_title = title memo,
       col_content = content memo,
       col_category = category memo,
       col_tags = Some (tags memo),
       col_summary = orNull (summary memo),
       created_at = createdAt memo,
       updated_at = updatedAt memo \<rparr>"

definition memoRepository_addMemo :: "backend \<Rightarrow> Memo \<Rightarrow> thrown + Memo" where
  \<comment> \<open>\<open>catch\<close>: log and rethrow.\<close>
  "memoRepository_addMemo b memo = singleResult (run_single b (Insert (insertPayload memo)))"

definition memoRepository_updateMemo :: "backend \<Rightarrow> Memo \<Rightarrow> thrown + Memo" where
  "memoRepository_updateMemo b updatedMemo =
     singleResult (run_single b (Update (memo_id updatedMemo)
       (FullUpdate (title updatedMemo) (content updatedMemo) (category updatedMemo)
          (tags updatedMemo) (orNull (summary updatedMemo)) (updatedAt updatedMemo))))"

definition memoRepository_deleteMemo :: "backend \<Rightarrow> string \<Rightarrow> thrown + unit" where
  \<comment> \<open>Only \<open>error\<close> of the reply is read.\<close>
  "memoRepository_deleteMemo b i =
     (case run_many b (Delete i) of
        Rejects e \<Rightarrow> Inl e
      | Resolves d err \<Rightarrow> (case err of Some e \<Rightarrow> Inl (PostgrestError e) | None \<Rightarrow> Inr ()))"

definition rowMatches :: "string \<Rightarrow> row \<Rightarrow> bool" where
  \<comment> \<open>The filter predicate of \<open>searchMemos\<close>; a null \<open>tags\<close> is falsy.\<close>
  "rowMatches lowercaseQuery r =
     (includesStr (toLowerCase (col_title r)) lowercaseQuery \<or>
      includesStr (toLowerCase (col_content r)) lowercaseQuery \<or>
      (case col_tags r of
         None \<Rightarrow> False
       | Some ts \<Rightarrow> list_ex (\<lambda>tag. includesStr (toLowerCase tag) lowercaseQuery) ts))"

definition searchResult :: "string \<Rightarrow> row list reply \<Rightarrow> thrown + Memo list" where
  "searchResult lowercaseQuery r =
     (case r of
        Rejects e \<Rightarrow> Inl e
      | Resolves d err \<Rightarrow>
          (case err of
             Some e \<Rightarrow> Inl (PostgrestError e)
           | None \<Rightarrow>
               (case d of
                  None \<Rightarrow> Inr []
                | Some rows \<Rightarrow> Inr (map toMemo (filter (rowMatches lowercaseQuery) rows)))))"

definition memoRepository_searchMemos :: "backend \<Rightarrow> string \<Rightarrow> Memo list" where
  "memoRepository_searchMemos b q =
     (let lowercaseQuery = toLowerCase q
      in case searchResult lowercaseQuery (run_many b SelectAll) of
           Inl e \<Rightarrow> [] | Inr ms \<Rightarrow> ms)"

definition memoRepository_getMemosByCategory :: "backend \<Rightarrow> string \<Rightarrow> Memo list" where
  "memoRepository_getMemosByCategory b cat =
     (let q = (if cat \<noteq> ''all'' then SelectCategory cat else SelectAll)
      in case listResult (run_many b q) of Inl e \<Rightarrow> [] | Inr ms \<Rightarrow> ms)"

definition getMemoById_try :: "row reply \<Rightarrow> thrown + Memo option" where
  \<comment> \<open>The \<open>try\<close> block of \<open>getMemoById\<close>: \<open>Inl\<close> is a throw, \<open>Inr None\<close> is
      \<open>return null\<close>.\<close>
  "getMemoById_try r =
     (case r of
        Rejects e \<Rightarrow> Inl e
      | Resolves d err \<Rightarrow>
          (case err of
             Some e \<Rightarrow> if code e = ''PGRST116'' then Inr None else Inl (PostgrestError e)
           | None \<Rightarrow> (case d of None \<Rightarrow> Inr None | Some x \<Rightarrow> Inr (Some (toMemo x)))))"

definition memoRepository_getMemoById :: "backend \<Rightarrow> string \<Rightarrow> thrown + Memo option" where
  \<comment> \<open>\<open>catch\<close>: log and \<open>return null\<close>; the result type keeps \<open>Inl\<close> for a throw
      that would leave the function.\<close>
  "memoRepository_getMemoById b i =
     (case getMemoById_try (run_single b (SelectById i)) of
        Inl e \<Rightarrow> Inr None
      | Inr m \<Rightarrow> Inr m)"

definition memoRepository_updateMemoSummary ::
  "backend \<Rightarrow> string \<Rightarrow> string \<Rightarrow> string \<Rightarrow> thrown + Memo" where
  \<comment> \<open>\<open>now\<close> is the reading of \<open>new Date().toISOString()\<close>.\<close>
  "memoRepository_updateMemoSummary b now i s =
     singleResult (run_single b (Update i (SummaryUpdate s now)))"

definition memoRepository_updateMemoTags ::
  "backend \<Rightarrow> string \<Rightarrow> string \<Rightarrow> string list \<Rightarrow> thrown + Memo" where
  "memoRepository_updateMemoTags b now i ts =
     singleResult (run_single b (Update i (TagsUpdate ts now)))"


section \<open>JSON.parse\<close>

text \<open>
  The tag service hands a piece of the model's answer to \<open>JSON.parse\<close>. The grammar
  of ECMA-404 is written as a scanner, one character at a time, followed by a stack
  machine over the tokens, so that both are total. A decoded string is a list of UTF-16
  code units (a \<open>\u\<close> escape can leave the range of \<^typ>\<open>char\<close>); a number keeps its
  literal, where JavaScript holds the nearest double; an object keeps its members in
  source order.
\<close>

type_synonym utf16 = "nat list"

datatype json =
    JNull
  | JBool bool
  | JNumber string
  | JString utf16
  | JArray "json list"
  | JObject "(utf16 \<times> json) list"

datatype token =
    TLBracket | TRBracket | TLBrace | TRBrace | TComma | TColon
  | TString utf16 | TNumber string | TTrue | TFalse | TNull

datatype numstate = NMinus | NZero | NInt | NDot | NFrac | NExp | NExpSign | NExpDigits

datatype lexstate =
    LIdle
  | LString utf16  \<comment> \<open>inside a string; the code units read so far\<close>
  | LEscape utf16  \<comment> \<open>after a backslash\<close>
  | LUnicode utf16 "nat list"  \<comment> \<open>after \<open>\u\<close>; the hex digits read so far\<close>
  | LNumber numstate string  \<comment> \<open>inside a number; the characters read so far\<close>
  | LKeyword string token  \<comment> \<open>inside \<open>true\<close>, \<open>false\<close>, \<open>null\<close>; what is left\<close>

definition isDigit :: "char \<Rightarrow> bool" where
  "isDigit c = (48 \<le> (of_char c :: nat) \<and> (of_char c :: nat) \<le> 57)"

definition hexValue :: "char \<Rightarrow> nat option" where
  "hexValue c =
     (let n = (of_char c :: nat)
      in if 48 \<le> n \<and> n \<le> 57 then Some (n - 48)
         else if 65 \<le> n \<and> n \<le> 70 then Some (n - 55)
         else if 97 \<le> n \<and> n \<le> 102 then Some (n - 87)
         else None)"

definition isJsonSpace :: "char \<Rightarrow> bool" where
  "isJsonSpace c = ((of_char c :: nat) \<in> {9, 10, 13, 32})"

definition lex_idle :: "char \<Rightarrow> (lexstate \<times> token list) option" where
  "lex_idle c =
     (if isJsonSpace c then Some (LIdle, [])
      else if c = CHR ''['' then Some (LIdle, [TLBracket])
      else if c = CHR '']'' then Some (LIdle, [TRBracket])
      else if c = CHR ''{'' then Some (LIdle, [TLBrace])
      else if c = CHR ''}'' then Some (LIdle, [TRBrace])
      else if c = CHR '','' then Some (LIdle, [TComma])
      else if c = CHR '':'' then Some (LIdle, [TColon])
      else if c = CHR 0x22 then Some (LString [], [])
      else if c = CHR ''-'' then Some (LNumber NMinus [c], [])
      else if c = CHR ''0'' then Some (LNumber NZero [c], [])
      else if isDigit c then Some (LNumber NInt [c], [])
      else if c = CHR ''t'' then Some (LKeyword ''rue'' TTrue, [])
      else if c = CHR ''f'' then Some (LKeyword ''alse'' TFalse, [])
      else if c = CHR ''n'' then Some (LKeyword ''ull'' TNull, [])
      else None)"

definition isExp :: "char \<Rightarrow> bool" where
  "isExp c = (c = CHR ''e'' \<or> c = CHR ''E'')"

fun num_step :: "numstate \<Rightarrow> char \<Rightarrow> numstate option" where
  \<comment> \<open>\<open>None\<close>: the character does not continue the number.\<close>
  "num_step NMinus c =
     (if c = CHR ''0'' then Some NZero else if isDigit c then Some NInt else None)"
| "num_step NZero c =
     (if c = CHR ''.'' then Some NDot else if isExp c then Some NExp else None)"
| "num_step NInt c =
     (if isDigit c then Some NInt else if c = CHR ''.'' then Some NDot
      else if isExp c then Some NExp else None)"
| "num_step NDot c = (if isDigit c then Some NFrac else None)"
| "num_step NFrac c =
     (if isDigit c then Some NFrac else if isExp c then Some NExp else None)"
| "num_step NExp c =
     (if c = CHR ''+'' \<or> c = CHR ''-'' then Some NExpSign
      else if isDigit c then Some NExpDigits else None)"
| "num_step NExpSign c = (if isDigit c then Some NExpDigits else None)"
| "num_step NExpDigits c = (if isDigit c then Some NExpDigits else None)"

fun num_final :: "numstate \<Rightarrow> bool" where
  "num_final NZero = True"
| "num_final NInt = True"
| "num_final NFrac = True"
| "num_final NExpDigits = True"
| "num_final _ = False"

definition escapeCode :: "char \<Rightarrow> nat option" where
  "escapeCode c =
     (if c = CHR 0x22 then Some 34
      else if c = CHR 0x5C then Some 92
      else if c = CHR ''/'' then Some 47
      else if c = CHR ''b'' then Some 8
      else if c = CHR ''f'' then Some 12
      else if c = CHR ''n'' then Some 10
      else if c = CHR ''r'' then Some 13
      else if c = CHR ''t'' then Some 9
      else None)"

fun lex_step :: "lexstate \<Rightarrow> char \<Rightarrow> (lexstate \<times> token list) option" where
  "lex_step LIdle c = lex_idle c"
| "lex_step (LString acc) c =
     (if c = CHR 0x22 then Some (LIdle, [TString acc])
      else if c = CHR 0x5C then Some (LEscape acc, [])
      else if (of_char c :: nat) < 32 then None
      else Some (LString (acc @ [of_char c]), []))"
| "lex_step (LEscape acc) c =
     (if c = CHR ''u'' then Some (LUnicode acc [], [])
      else case escapeCode c of
             None \<Rightarrow> None
           | Some n \<Rightarrow> Some (LString (acc @ [n]), []))"
| "lex_step (LUnicode acc ds) c =
     (case hexValue c of
        None \<Rightarrow> None
      | Some d \<Rightarrow>
          if length ds = 3
          then Some (LString (acc @ [foldl (\<lambda>v x. 16 * v + x) 0 (ds @ [d])]), [])
          else Some (LUnicode acc (ds @ [d]), []))"
| "lex_step (LNumber st acc) c =
     (case num_step st c of
        Some st' \<Rightarrow> Some (LNumber st' (acc @ [c]), [])
      | None \<Rightarrow>
          if num_final st
          then (case lex_idle c of
                  None \<Rightarrow> None
                | Some (st', ts) \<Rightarrow> Some (st', TNumber acc # ts))
          else None)"
| "lex_step (LKeyword rest tok) c =
     (case rest of
        [] \<Rightarrow> None
      | r # rs \<Rightarrow>
          if c \<noteq> r then None
          else if rs = [] then Some (LIdle, [tok])
          else Some (LKeyword rs tok, []))"

fun lex :: "lexstate \<Rightarrow> string \<Rightarrow> token list option" where
  "lex st [] =
     (case st of
        LIdle \<Rightarrow> Some []
      | LNumber ns acc \<Rightarrow> if num_final ns then Some [TNumber acc] else None
      | _ \<Rightarrow> None)"
| "lex st (c # cs) =
     (case lex_step st c of
        None \<Rightarrow> None
      | Some (st', ts) \<Rightarrow>
          (case lex st' cs of None \<Rightarrow> None | Some rest \<Rightarrow> Some (ts @ rest)))"

datatype frame =
    ArrayFrame "json list"  \<comment> \<open>an open array and its elements so far\<close>
  | ObjectFrame "(utf16 \<times> json) list"  \<comment> \<open>an open object and its members so far\<close>
  | MemberFrame "(utf16 \<times> json) list" utf16  \<comment> \<open>an open object waiting for the value of a key\<close>

datatype pstate =
    PValue | PArrayStart | PArrayNext | PObjectStart | PObjectKey | PColon utf16
  | PObjectNext | PDone json

fun complete :: "json \<Rightarrow> frame list \<Rightarrow> (pstate \<times> frame list) option" where
  "complete v [] = Some (PDone v, [])"
| "complete v (ArrayFrame acc # st) = Some (PArrayNext, ArrayFrame (acc @ [v]) # st)"
| "complete v (MemberFrame acc k # st) = Some (PObjectNext, ObjectFrame (acc @ [(k, v)]) # st)"
| "complete v (ObjectFrame acc # st) = None"

fun begin_value :: "token \<Rightarrow> frame list \<Rightarrow> (pstate \<times> frame list) option" where
  "begin_value (TString s) st = complete (JString s) st"
| "begin_value (TNumber n) st = complete (JNumber n) st"
| "begin_value TTrue st = complete (JBool True) st"
| "begin_value TFalse st = complete (JBool False) st"
| "begin_value TNull st = complete JNull st"
| "begin_value TLBracket st = Some (PArrayStart, ArrayFrame [] # st)"
| "begin_value TLBrace st = Some (PObjectStart, ObjectFrame [] # st)"
| "begin_value _ st = None"

fun close_array :: "frame list \<Rightarrow> (pstate \<times> frame list) option" where
  "close_array (ArrayFrame acc # st) = complete (JArray acc) st"
| "close_array _ = None"

fun close_object :: "frame list \<Rightarrow> (pstate \<times> frame list) option" where
  "close_object (ObjectFrame acc # st) = complete (JObject acc) st"
| "close_object _ = None"

fun open_member :: "utf16 \<Rightarrow> frame list \<Rightarrow> (pstate \<times> frame list) option" where
  "open_member k (ObjectFrame acc # st) = Some (PValue, MemberFrame acc k # st)"
| "open_member k _ = None"

fun parse_step :: "pstate \<Rightarrow> frame list \<Rightarrow> token \<Rightarrow> (pstate \<times> frame list) option" where
  "parse_step PValue st t = begin_value t st"
| "parse_step PArrayStart st t = (if t = TRBracket then close_array st else begin_value t st)"
| "parse_step PArrayNext st t =
     (if t = TComma then Some (PValue, st)
      else if t = TRBracket then close_array st else None)"
| "parse_step PObjectStart st t =
     (case t of TString k \<Rightarrow> Some (PColon k, st) | TRBrace \<Rightarrow> close_object st | _ \<Rightarrow> None)"
| "parse_step PObjectKey st t = (case t of TString k \<Rightarrow> Some (PColon k, st) | _ \<Rightarrow> None)"
| "parse_step (PColon k) st t = (if t = TColon then open_member k st else None)"
| "parse_step PObjectNext st t =
     (if t = TComma then Some (PObjectKey, st)
      else if t = TRBrace then close_object st else None)"
| "parse_step (PDone v) st t = None"

fun parse_tokens :: "pstate \<Rightarrow> frame list \<Rightarrow> token list \<Rightarrow> json option" where
  "parse_tokens p st [] = (case (p, st) of (PDone v, []) \<Rightarrow> Some v | _ \<Rightarrow> None)"
| "parse_tokens p st (t # ts) =
     (case parse_step p st t of
        None \<Rightarrow> None
      | Some (p', st') \<Rightarrow> parse_tokens p' st' ts)"

definition JSON_parse :: "string \<Rightarrow> json option" where
  \<comment> \<open>\<open>None\<close>: \<open>JSON.parse\<close> throws a SyntaxError.\<close>
  "JSON_parse text =
     (case lex LIdle text of None \<Rightarrow> None | Some ts \<Rightarrow> parse_tokens PValue [] ts)"


section \<open>Tag-generation service: reading the answer\<close>

fun upToClose :: "string \<Rightarrow> string option" where
  \<comment> \<open>The lazy \<open>.*?\]\<close> with the \<open>s\<close> flag: everything up to the first \<open>]\<close>.\<close>
  "upToClose [] = None"
| "upToClose (c # cs) =
     (if c = CHR '']'' then Some [c] else map_option ((#) c) (upToClose cs))"

fun jsonMatch :: "string \<Rightarrow> string option" where
  \<comment> \<open>\<open>responseText.match(/\[.*?\]/s)\<close>: the match starts at the first \<open>[\<close>; when
      no \<open>]\<close> follows it, none follows a later \<open>[\<close> either and the result is null.\<close>
  "jsonMatch [] = None"
| "jsonMatch (c # cs) =
     (if c = CHR ''['' then map_option ((#) c) (upToClose cs) else jsonMatch cs)"

fun splitLines :: "string \<Rightarrow> string list" where
  \<comment> \<open>\<open>split(/[,\n]/)\<close>\<close>
  "splitLines [] = [[]]"
| "splitLines (c # cs) =
     (if c = CHR '','' \<or> c = CHR 0x0A then [] # splitLines cs
      else (case splitLines cs of [] \<Rightarrow> [[c]] | p # ps \<Rightarrow> (c # p) # ps))"

definition isQuote :: "char \<Rightarrow> bool" where
  "isQuote c = (c = CHR 0x22 \<or> c = CHR 0x27 \<or> c = CHR 0x60)"

definition stripQuotes :: "string \<Rightarrow> string" where
  \<comment> \<open>\<open>replace(/^["'`]|["'`]$/g, '')\<close>: one quote character at the start and one at
      the end of what is left.\<close>
  "stripQuotes s =
     (let s1 = (case s of [] \<Rightarrow> [] | c # cs \<Rightarrow> if isQuote c then cs else s)
      in if s1 \<noteq> [] \<and> isQuote (last s1) then butlast s1 else s1)"

definition fallbackLines :: "string \<Rightarrow> string list" where
  "fallbackLines responseText =
     take 5 (filter (\<lambda>line. length line > 0)
       (map (\<lambda>line. stripQuotes (trim line)) (splitLines responseText)))"

definition ofString :: "string \<Rightarrow> json" where
  \<comment> \<open>A JavaScript string as a JSON value.\<close>
  "ofString s = JString (map of_char s)"

definition responseTextOf :: "string option \<Rightarrow> string" where
  \<comment> \<open>\<open>response.text || '[]'\<close>\<close>
  "responseTextOf t = (case t of None \<Rightarrow> ''[]'' | Some s \<Rightarrow> if s = [] then ''[]'' else s)"

definition parseTags :: "string option \<Rightarrow> json list" where
  \<comment> \<open>The value of \<open>tags\<close> after the parsing block: the \<open>try\<close> with its \<open>catch\<close>
      (\<open>tags = []\<close>), then the \<open>Array.isArray\<close> check.\<close>
  "parseTags t =
     (let responseText = responseTextOf t;
          parsed =
            (case jsonMatch responseText of
               Some m \<Rightarrow> (case JSON_parse m of None \<Rightarrow> JArray [] | Some v \<Rightarrow> v)
             | None \<Rightarrow> JArray (map ofString (fallbackLines responseText)))
      in case parsed of JArray ts \<Rightarrow> (if length ts = 0 then [] else ts) | _ \<Rightarrow> [])"


section \<open>Summarization and tag-generation services\<close>

text \<open>
  The two \<open>POST\<close> handlers. A field of the request body is absent, a string, or some
  other JSON value, of which the handlers use only the truthiness (a body that is not an
  object and not \<open>null\<close> has all three fields absent). The environment is a
  parameter: the credential, the completion API, the table client and the clock. A
  handler returns its HTTP response and the calls it made, in order.
\<close>

datatype jsvalue = Str string | NonString bool  \<comment> \<open>\<open>NonString t\<close>: truthiness \<open>t\<close>\<close>

datatype request =
    Unparsable string  \<comment> \<open>\<open>request.json()\<close> throws an error with this message\<close>
  | NullBody string  \<comment> \<open>the body is \<open>null\<close>; the message of the TypeError\<close>
  | Body "jsvalue option" "jsvalue option" "jsvalue option"
      \<comment> \<open>\<open>memoId\<close>, \<open>title\<close>, \<open>content\<close>\<close>

definition truthy :: "jsvalue option \<Rightarrow> bool" where
  "truthy v =
     (case v of None \<Rightarrow> False | Some (Str s) \<Rightarrow> s \<noteq> [] | Some (NonString t) \<Rightarrow> t)"

datatype js_exn = ErrorInstance string | NotAnError

datatype prompt =
    SummaryPrompt "jsvalue option" "jsvalue option"
      \<comment> \<open>the summary template with \<open>title\<close> and \<open>content\<close> put in\<close>
  | TagsPrompt "jsvalue option" "jsvalue option"

datatype llm_request = GenerateContent string prompt nat
  \<comment> \<open>API key, \<open>contents\<close>, \<open>maxOutputTokens\<close>; the model name and the temperature
      are the same constants in both handlers\<close>

datatype llm_outcome = LlmThrows js_exn | LlmResponse "string option"  \<comment> \<open>\<open>response.text\<close>\<close>

datatype summary_text = Generated string | CannotSummarize
  \<comment> \<open>\<open>CannotSummarize\<close>: the fixed placeholder sentence used for an empty answer\<close>

datatype writeback =
    SaveSummary "jsvalue option" summary_text string  \<comment> \<open>\<open>memoId\<close>, summary, \<open>updated_at\<close>\<close>
  | SaveTags "jsvalue option" "json list" string

datatype db_outcome = DbThrows | DbResolves "pg_error option"

record environment =
  GEMINI_API_KEY :: "string option"
  generateContent :: "llm_request \<Rightarrow> llm_outcome"
  updateMemos :: "writeback \<Rightarrow> db_outcome"
  clock :: string

datatype error_message =
    FieldsRequired  \<comment> \<open>"memo id, title and content are required"\<close>
  | ApiKeyNotSet
  | Message string  \<comment> \<open>\<open>error.message\<close> of a caught error\<close>
  | GenericFailure  \<comment> \<open>the fixed sentence used when the caught value is not an Error\<close>

datatype response_body =
    ErrorBody error_message | SummaryBody summary_text | TagsBody "json list"

datatype response = Response nat response_body  \<comment> \<open>status, JSON body\<close>

datatype effect = CallLLM llm_request | WriteBack writeback | ConsoleError

definition caught :: "js_exn \<Rightarrow> response" where
  \<comment> \<open>The outer \<open>catch\<close>: status 500 with \<open>error.message\<close> or the fixed sentence.\<close>
  "caught e =
     Response 500 (ErrorBody (case e of ErrorInstance m \<Rightarrow> Message m | NotAnError \<Rightarrow> GenericFailure))"

definition apiKeyOf :: "environment \<Rightarrow> string option" where
  \<comment> \<open>\<open>process.env.GEMINI_API_KEY\<close> when it is truthy (\<open>!apiKey\<close> is false).\<close>
  "apiKeyOf env =
     (case GEMINI_API_KEY env of None \<Rightarrow> None | Some k \<Rightarrow> if k = [] then None else Some k)"

definition writeBackLog :: "db_outcome \<Rightarrow> effect list" where
  \<comment> \<open>The inner \<open>try\<close>: an error in the reply and a thrown error are both logged
      and nothing else.\<close>
  "writeBackLog r =
     (case r of
        DbThrows \<Rightarrow> [ConsoleError]
      | DbResolves err \<Rightarrow> (case err of None \<Rightarrow> [] | Some e \<Rightarrow> [ConsoleError]))"

definition summaryOf :: "string option \<Rightarrow> summary_text" where
  \<comment> \<open>\<open>response.text || placeholder\<close>\<close>
  "summaryOf t =
     (case t of None \<Rightarrow> CannotSummarize
      | Some s \<Rightarrow> if s = [] then CannotSummarize else Generated s)"

definition POST_summary :: "environment \<Rightarrow> request \<Rightarrow> response \<times> effect list" where
  "POST_summary env req =
     (case req of
        Unparsable m \<Rightarrow> (caught (ErrorInstance m), [ConsoleError])
      | NullBody m \<Rightarrow> (caught (ErrorInstance m), [ConsoleError])
      | Body memoId ttl cnt \<Rightarrow>
          if \<not> truthy memoId \<or> \<not> truthy ttl \<or> \<not> truthy cnt
          then (Response 400 (ErrorBody FieldsRequired), [])
          else
            (case apiKeyOf env of
               None \<Rightarrow> (Response 500 (ErrorBody ApiKeyNotSet), [])
             | Some apiKey \<Rightarrow>
                 (let call = GenerateContent apiKey (SummaryPrompt ttl cnt) 500
                  in (case generateContent env call of
                        LlmThrows e \<Rightarrow> (caught e, [CallLLM call, ConsoleError])
                      | LlmResponse t \<Rightarrow>
                          (let smry = summaryOf t;
                               save = SaveSummary memoId smry (clock env)
                           in (Response 200 (SummaryBody smry),
                               [CallLLM call, WriteBack save]
                                 @ writeBackLog (updateMemos env save)))))))"

definition POST_tags :: "environment \<Rightarrow> request \<Rightarrow> response \<times> effect list" where
  "POST_tags env req =
     (case req of
        Unparsable m \<Rightarrow> (caught (ErrorInstance m), [ConsoleError])
      | NullBody m \<Rightarrow> (caught (ErrorInstance m), [ConsoleError])
      | Body memoId ttl cnt \<Rightarrow>
          if \<not> truthy memoId \<or> \<not> truthy ttl \<or> \<not> truthy cnt
          then (Response 400 (ErrorBody FieldsRequired), [])
          else
            (case apiKeyOf env of
               None \<Rightarrow> (Response 500 (ErrorBody ApiKeyNotSet), [])
             | Some apiKey \<Rightarrow>
                 (let call = GenerateContent apiKey (TagsPrompt ttl cnt) 200
                  in (case generateContent env call of
                        LlmThrows e \<Rightarrow> (caught e, [CallLLM call, ConsoleError])
                      | LlmResponse t \<Rightarrow>
                          (let tgs = parseTags t;
                               save = SaveTags memoId tgs (clock env)
                           in (Response 200 (TagsBody tgs),
                               [CallLLM call, WriteBack save]
                                 @ writeBackLog (updateMemos env save)))))))"



section \<open>Memo state controller\<close>

text \<open>
  The hook \<open>useMemos\<close>. Its state is the cache \<open>memos\<close> and the two filter
  parameters; an operation takes the cache and returns its result (\<open>Inl\<close> for a
  rethrown error) together with the cache afterwards. The identifier from \<open>uuidv4()\<close>
  and the readings of \<open>new Date().toISOString()\<close> are parameters, one for each call the
  source makes.
\<close>

definition newMemo :: "string \<Rightarrow> string \<Rightarrow> string \<Rightarrow> MemoFormData \<Rightarrow> Memo" where
  \<comment> \<open>\<open>{ id: uuidv4(), ...formData, createdAt: <first reading>,
      updatedAt: <second reading> }\<close>\<close>
  "newMemo uuid now1 now2 formData =
     \<lparr> memo_id = uuid,
       title = form_title formData,
       content = form_content formData,
       category = form_category formData,
       tags = form_tags formData,
       summary = None,
       createdAt = now1,
       updatedAt = now2 \<rparr>"

definition createMemo ::
  "backend \<Rightarrow> string \<Rightarrow> string \<Rightarrow> string \<Rightarrow> MemoFormData \<Rightarrow> Memo list
     \<Rightarrow> (thrown + Memo) \<times> Memo list" where
  "createMemo b uuid now1 now2 formData memos =
     (case memoRepository_addMemo b (newMemo uuid now1 now2 formData) of
        Inr createdMemo \<Rightarrow> (Inr createdMemo, createdMemo # memos)
      | Inl err \<Rightarrow> (Inl err, memos))"

definition replaceById :: "string \<Rightarrow> Memo \<Rightarrow> Memo list \<Rightarrow> Memo list" where
  \<comment> \<open>\<open>prev.map(memo => (memo.id === id ? saved : memo))\<close>\<close>
  "replaceById i saved prev = map (\<lambda>memo. if memo_id memo = i then saved else memo) prev"

definition updateMemo ::
  "backend \<Rightarrow> string \<Rightarrow> string \<Rightarrow> MemoFormData \<Rightarrow> Memo list
     \<Rightarrow> (thrown + unit) \<times> Memo list" where
  \<comment> \<open>An id that is not in the cache returns at once, without a repository call.\<close>
  "updateMemo b now i formData memos =
     (case find (\<lambda>memo. memo_id memo = i) memos of
        None \<Rightarrow> (Inr (), memos)
      | Some existingMemo \<Rightarrow>
          (let updatedMemo = existingMemo
                 \<lparr> title := form_title formData,
                   content := form_content formData,
                   category := form_category formData,
                   tags := form_tags formData,
                   updatedAt := now \<rparr>
           in (case memoRepository_updateMemo b updatedMemo of
                 Inr savedMemo \<Rightarrow> (Inr (), replaceById i savedMemo memos)
               | Inl err \<Rightarrow> (Inl err, memos))))"

definition deleteMemo :: "backend \<Rightarrow> string \<Rightarrow> Memo list \<Rightarrow> (thrown + unit) \<times> Memo list" where
  "deleteMemo b i memos =
     (case memoRepository_deleteMemo b i of
        Inr u \<Rightarrow> (Inr (), filter (\<lambda>memo. memo_id memo \<noteq> i) memos)
      | Inl err \<Rightarrow> (Inl err, memos))"

definition updateMemoSummary ::
  "backend \<Rightarrow> string \<Rightarrow> string \<Rightarrow> string \<Rightarrow> Memo list \<Rightarrow> (thrown + unit) \<times> Memo list" where
  "updateMemoSummary b now i s memos =
     (case memoRepository_updateMemoSummary b now i s of
        Inr updatedMemo \<Rightarrow> (Inr (), replaceById i updatedMemo memos)
      | Inl err \<Rightarrow> (Inl err, memos))"

definition updateMemoTags ::
  "backend \<Rightarrow> string \<Rightarrow> string \<Rightarrow> string list \<Rightarrow> Memo list
     \<Rightarrow> (thrown + unit) \<times> Memo list" where
  "updateMemoTags b now i ts memos =
     (case memoRepository_updateMemoTags b now i ts of
        Inr updatedMemo \<Rightarrow> (Inr (), replaceById i updatedMemo memos)
      | Inl err \<Rightarrow> (Inl err, memos))"



section \<open>The filtered view as the specification words it\<close>






section \<open>Example data\<close>

definition row1 :: row where
  "row1 = \<lparr> col_id = ''m1'', col_title = ''Title'', col_content = ''Body'',
            col_category = ''work'', col_tags = None, col_summary = Some [],
            created_at = ''2024-01-01T00:00:00.000Z'',
            updated_at = ''2024-01-01T00:00:00.000Z'' \<rparr>"

definition memo1 :: Memo where
  "memo1 = toMemo row1"

definition noRows :: pg_error where
  "noRows = \<lparr> code = ''PGRST116'', message = ''no rows'' \<rparr>"

definition denied :: pg_error where
  "denied = \<lparr> code = ''42501'', message = ''permission denied'' \<rparr>"

definition backend1 :: backend where
  \<comment> \<open>A backend that holds \<open>row1\<close>, reports "no rows" for id \<open>m2\<close>, refuses id
      \<open>m3\<close> and is unreachable for every other id.\<close>
  "backend1 =
     \<lparr> run_many = (\<lambda>q. Resolves (Some [row1]) None),
       run_single = (\<lambda>q. case q of
          SelectById i \<Rightarrow>
            (if i = ''m1'' then Resolves (Some row1) None
             else if i = ''m2'' then Resolves None (Some noRows)
             else if i = ''m3'' then Resolves None (Some denied)
             else Rejects (Rejected ''fetch failed''))
        | _ \<Rightarrow> Resolves (Some row1) None) \<rparr>"


definition memoA :: Memo where
  "memoA = \<lparr> memo_id = ''3b241101-e2bb-4255-8caf-4136c566a962'', title = ''Buy Milk'',
              content = ''two litres'', category = ''personal'', tags = [''Shopping''],
              summary = None, createdAt = ''2024-01-01T00:00:00.000Z'',
              updatedAt = ''2024-01-01T00:00:00.000Z'' \<rparr>"

definition memoB :: Memo where
  "memoB = \<lparr> memo_id = ''9f1c2d3e-4a5b-4c6d-8e7f-0a1b2c3d4e5f'', title = ''Sprint plan'',
              content = ''Review the milkman contract'', category = ''work'', tags = [],
              summary = None, createdAt = ''2024-01-02T00:00:00.000Z'',
              updatedAt = ''2024-01-02T00:00:00.000Z'' \<rparr>"


definition formA :: MemoFormData where
  "formA = \<lparr> form_title = ''T'', form_content = ''C'', form_category = ''idea'',
              form_tags = [] \<rparr>"


definition downBackend :: backend where
  \<comment> \<open>A backend that cannot be reached.\<close>
  "downBackend =
     \<lparr> run_many = (\<lambda>q. Rejects (Rejected ''fetch failed'')),
       run_single = (\<lambda>q. Rejects (Rejected ''fetch failed'')) \<rparr>"


definition env1 :: environment where
  \<comment> \<open>The credential is set and the completion API answers every request with the
      same text.\<close>
  "env1 =
     \<lparr> GEMINI_API_KEY = Some ''key'',
       generateContent = (\<lambda>c. LlmResponse (Some ''[\"a\",\"b\",\"c\"]'')),
       updateMemos = (\<lambda>w. DbResolves None),
       clock = ''2024-03-01T09:00:00.000Z'' \<rparr>"

definition request1 :: request where
  "request1 = Body (Some (Str ''m1'')) (Some (Str ''Title'')) (Some (Str ''Body''))"


section \<open>Properties of the repository\<close>

lemma toMemo_summary: "summary (toMemo r) \<noteq> Some []"
  by (simp add: toMemo_def split: option.splits)

lemma listResult_summary: "listResult r = Inr ms \<Longrightarrow> m \<in> set ms \<Longrightarrow> summary m \<noteq> Some []"
  by (auto simp: listResult_def toMemo_summary split: reply.splits option.splits)

lemma singleResult_summary: "singleResult r = Inr m \<Longrightarrow> summary m \<noteq> Some []"
  by (auto simp: singleResult_def toMemo_summary split: reply.splits option.splits)

lemma searchResult_summary:
  "searchResult q r = Inr ms \<Longrightarrow> m \<in> set ms \<Longrightarrow> summary m \<noteq> Some []"
  by (auto simp: searchResult_def toMemo_summary split: reply.splits option.splits)

text \<open>
  C3. \<open>getMemoById\<close> never throws. It returns null when the backend answers with an
  error, whether the code is the "no rows" code \<open>PGRST116\<close> or any other, and when the
  request itself is rejected; it returns a memo only when the backend answered with a
  row and no error, and then the memo is the translation of that row.
\<close>

theorem getMemoById_null_on_any_error:
  "(run_single b (SelectById i) = Resolves d (Some e) \<longrightarrow>
      memoRepository_getMemoById b i = Inr None) \<and>
   (run_single b (SelectById i) = Rejects t \<longrightarrow>
      memoRepository_getMemoById b i = Inr None) \<and>
   memoRepository_getMemoById b i \<noteq> Inl t' \<and>
   (memoRepository_getMemoById b i = Inr (Some m) \<longrightarrow>
      (\<exists>x. run_single b (SelectById i) = Resolves (Some x) None \<and> m = toMemo x)) \<and>
   (run_single b (SelectById i) = Resolves (Some x) None \<longrightarrow>
      memoRepository_getMemoById b i = Inr (Some (toMemo x)))"
  by (auto simp: memoRepository_getMemoById_def getMemoById_try_def
           split: reply.splits option.splits sum.splits if_splits)

theorem getMemoById_null_on_any_error_witness:
  "run_single backend1 (SelectById ''m2'') = Resolves None (Some noRows) \<and>
   code noRows = ''PGRST116'' \<and>
   memoRepository_getMemoById backend1 ''m2'' = Inr None \<and>
   run_single backend1 (SelectById ''m3'') = Resolves None (Some denied) \<and>
   code denied \<noteq> ''PGRST116'' \<and>
   memoRepository_getMemoById backend1 ''m3'' = Inr None \<and>
   run_single backend1 (SelectById ''m4'') = Rejects (Rejected ''fetch failed'') \<and>
   memoRepository_getMemoById backend1 ''m4'' = Inr None \<and>
   run_single backend1 (SelectById ''m1'') = Resolves (Some row1) None \<and>
   memoRepository_getMemoById backend1 ''m1'' = Inr (Some (toMemo row1))"
proof -
  have h2: "run_single backend1 (SelectById ''m2'') = Resolves None (Some noRows)"
    by code_simp
  have h3: "run_single backend1 (SelectById ''m3'') = Resolves None (Some denied)"
    by code_simp
  have h4: "run_single backend1 (SelectById ''m4'') = Rejects (Rejected ''fetch failed'')"
    by code_simp
  have h1: "run_single backend1 (SelectById ''m1'') = Resolves (Some row1) None"
    by code_simp
  have c: "code noRows = ''PGRST116''" "code denied \<noteq> ''PGRST116''"
    by code_simp+
  from h2 have r2: "memoRepository_getMemoById backend1 ''m2'' = Inr None"
    using getMemoById_null_on_any_error [of backend1 "''m2''" None noRows] by blast
  from h3 have r3: "memoRepository_getMemoById backend1 ''m3'' = Inr None"
    using getMemoById_null_on_any_error [of backend1 "''m3''" None denied] by blast
  from h4 have r4: "memoRepository_getMemoById backend1 ''m4'' = Inr None"
    using getMemoById_null_on_any_error
            [of backend1 "''m4''" _ _ "Rejected ''fetch failed''"] by blast
  from h1 have r1: "memoRepository_getMemoById backend1 ''m1'' = Inr (Some (toMemo row1))"
    using getMemoById_null_on_any_error [of backend1 "''m1''" _ _ _ _ _ row1] by blast
  from h1 h2 h3 h4 c r1 r2 r3 r4 show ?thesis by blast
qed

text \<open>
  C10. The translation from a row to a memo turns a stored summary that is null or the
  empty string into an absent summary, and no memo returned by any repository operation
  (\<open>getMemos\<close>, \<open>addMemo\<close>, \<open>updateMemo\<close>, \<open>searchMemos\<close>, \<open>getMemosByCategory\<close>,
  \<open>getMemoById\<close>, \<open>updateMemoSummary\<close>, \<open>updateMemoTags\<close>) has the empty string as
  its summary.
\<close>

theorem repository_summary_never_empty:
  "(col_summary r = None \<or> col_summary r = Some [] \<longrightarrow> summary (toMemo r) = None) \<and>
   (m \<in> set (memoRepository_getMemos b) \<longrightarrow> summary m \<noteq> Some []) \<and>
   (memoRepository_addMemo b memo = Inr m \<longrightarrow> summary m \<noteq> Some []) \<and>
   (memoRepository_updateMemo b memo = Inr m \<longrightarrow> summary m \<noteq> Some []) \<and>
   (m \<in> set (memoRepository_searchMemos b q) \<longrightarrow> summary m \<noteq> Some []) \<and>
   (m \<in> set (memoRepository_getMemosByCategory b cat) \<longrightarrow> summary m \<noteq> Some []) \<and>
   (memoRepository_getMemoById b i = Inr (Some m) \<longrightarrow> summary m \<noteq> Some []) \<and>
   (memoRepository_updateMemoSummary b now i s = Inr m \<longrightarrow> summary m \<noteq> Some []) \<and>
   (memoRepository_updateMemoTags b now i ts = Inr m \<longrightarrow> summary m \<noteq> Some [])"
proof -
  have conv: "col_summary r = None \<or> col_summary r = Some [] \<longrightarrow> summary (toMemo r) = None"
    by (auto simp: toMemo_def)
  have get: "m \<in> set (memoRepository_getMemos b) \<longrightarrow> summary m \<noteq> Some []"
    by (cases "listResult (run_many b SelectAll)")
       (auto simp: memoRepository_getMemos_def dest: listResult_summary)
  have add: "memoRepository_addMemo b memo = Inr m \<longrightarrow> summary m \<noteq> Some []"
    unfolding memoRepository_addMemo_def by (blast dest: singleResult_summary)
  have upd: "memoRepository_updateMemo b memo = Inr m \<longrightarrow> summary m \<noteq> Some []"
    unfolding memoRepository_updateMemo_def by (blast dest: singleResult_summary)
  have search: "m \<in> set (memoRepository_searchMemos b q) \<longrightarrow> summary m \<noteq> Some []"
    by (cases "searchResult (toLowerCase q) (run_many b SelectAll)")
       (auto simp: memoRepository_searchMemos_def Let_def dest: searchResult_summary)
  have bycat: "m \<in> set (memoRepository_getMemosByCategory b cat) \<longrightarrow> summary m \<noteq> Some []"
    by (cases "listResult (run_many b (if cat \<noteq> ''all'' then SelectCategory cat else SelectAll))")
       (auto simp: memoRepository_getMemosByCategory_def Let_def dest: listResult_summary)
  have byid: "memoRepository_getMemoById b i = Inr (Some m) \<longrightarrow> summary m \<noteq> Some []"
    by (auto simp: memoRepository_getMemoById_def getMemoById_try_def toMemo_summary
             split: reply.splits option.splits sum.splits if_splits)
  have sm: "memoRepository_updateMemoSummary b now i s = Inr m \<longrightarrow> summary m \<noteq> Some []"
    unfolding memoRepository_updateMemoSummary_def by (blast dest: singleResult_summary)
  have tg: "memoRepository_updateMemoTags b now i ts = Inr m \<longrightarrow> summary m \<noteq> Some []"
    unfolding memoRepository_updateMemoTags_def by (blast dest: singleResult_summary)
  from conv get add upd search bycat byid sm tg show ?thesis by blast
qed

theorem repository_summary_never_empty_witness:
  "col_summary row1 = Some [] \<and> summary (toMemo row1) = None \<and>
   memo1 \<in> set (memoRepository_getMemos backend1) \<and>
   memoRepository_addMemo backend1 memo1 = Inr memo1 \<and>
   memoRepository_updateMemo backend1 memo1 = Inr memo1 \<and>
   memo1 \<in> set (memoRepository_searchMemos backend1 ''title'') \<and>
   memo1 \<in> set (memoRepository_getMemosByCategory backend1 ''work'') \<and>
   memoRepository_getMemoById backend1 ''m1'' = Inr (Some memo1) \<and>
   memoRepository_updateMemoSummary backend1 ''2024-01-02T00:00:00.000Z'' ''m1'' [] = Inr memo1 \<and>
   memoRepository_updateMemoTags backend1 ''2024-01-02T00:00:00.000Z'' ''m1'' [] = Inr memo1 \<and>
   summary memo1 \<noteq> Some []"
proof -
  have h0: "col_summary row1 = Some []" by code_simp
  have h1: "memo1 \<in> set (memoRepository_getMemos backend1)" by code_simp
  have h2: "memoRepository_addMemo backend1 memo1 = Inr memo1" by code_simp
  have h3: "memoRepository_updateMemo backend1 memo1 = Inr memo1" by code_simp
  have h4: "memo1 \<in> set (memoRepository_searchMemos backend1 ''title'')" by code_simp
  have h5: "memo1 \<in> set (memoRepository_getMemosByCategory backend1 ''work'')" by code_simp
  have h6: "memoRepository_getMemoById backend1 ''m1'' = Inr (Some memo1)" by code_simp
  have h7: "memoRepository_updateMemoSummary backend1 ''2024-01-02T00:00:00.000Z'' ''m1'' []
              = Inr memo1" by code_simp
  have h8: "memoRepository_updateMemoTags backend1 ''2024-01-02T00:00:00.000Z'' ''m1'' []
              = Inr memo1" by code_simp
  note t = repository_summary_never_empty
             [of row1 memo1 backend1 memo1 "''title''" "''work''" "''m1''"
                 "''2024-01-02T00:00:00.000Z''" "[]" "[]"]
  from t h0 have a: "summary (toMemo row1) = None" by blast
  from t h1 have b: "summary memo1 \<noteq> Some []" by blast
  from h0 h1 h2 h3 h4 h5 h6 h7 h8 a b show ?thesis by blast
qed


section \<open>Properties of the filtered view\<close>










section \<open>Properties of the controller's mutations\<close>

text \<open>
  C5. Each mutating operation of the controller (\<open>createMemo\<close>, \<open>updateMemo\<close>,
  \<open>deleteMemo\<close>, \<open>updateMemoSummary\<close>, \<open>updateMemoTags\<close>) changes the cache only
  with the result of a repository call that succeeded: the created memo goes to the
  front, the saved memo replaces the entries with the given id, the entries with the
  given id are removed. When the repository call throws, the cache is the same as before
  and the error is rethrown. \<open>updateMemo\<close> on an id that is not in the cache returns
  with the cache unchanged.
\<close>

theorem mutations_update_cache_only_on_success:
  "(memoRepository_addMemo b (newMemo uuid now1 now2 formData) = Inr created \<longrightarrow>
      createMemo b uuid now1 now2 formData memos = (Inr created, created # memos)) \<and>
   (memoRepository_addMemo b (newMemo uuid now1 now2 formData) = Inl err \<longrightarrow>
      createMemo b uuid now1 now2 formData memos = (Inl err, memos)) \<and>
   (find (\<lambda>memo. memo_id memo = i) memos = None \<longrightarrow>
      updateMemo b now i formData memos = (Inr (), memos)) \<and>
   (find (\<lambda>memo. memo_id memo = i) memos = Some existing \<and>
    memoRepository_updateMemo b
      (existing \<lparr> title := form_title formData, content := form_content formData,
                  category := form_category formData, tags := form_tags formData,
                  updatedAt := now \<rparr>) = Inr saved \<longrightarrow>
      updateMemo b now i formData memos
        = (Inr (), map (\<lambda>memo. if memo_id memo = i then saved else memo) memos)) \<and>
   (find (\<lambda>memo. memo_id memo = i) memos = Some existing \<and>
    memoRepository_updateMemo b
      (existing \<lparr> title := form_title formData, content := form_content formData,
                  category := form_category formData, tags := form_tags formData,
                  updatedAt := now \<rparr>) = Inl err \<longrightarrow>
      updateMemo b now i formData memos = (Inl err, memos)) \<and>
   (memoRepository_deleteMemo b i = Inr () \<longrightarrow>
      deleteMemo b i memos = (Inr (), filter (\<lambda>memo. memo_id memo \<noteq> i) memos)) \<and>
   (memoRepository_deleteMemo b i = Inl err \<longrightarrow> deleteMemo b i memos = (Inl err, memos)) \<and>
   (memoRepository_updateMemoSummary b now i s = Inr saved \<longrightarrow>
      updateMemoSummary b now i s memos
        = (Inr (), map (\<lambda>memo. if memo_id memo = i then saved else memo) memos)) \<and>
   (memoRepository_updateMemoSummary b now i s = Inl err \<longrightarrow>
      updateMemoSummary b now i s memos = (Inl err, memos)) \<and>
   (memoRepository_updateMemoTags b now i ts = Inr saved \<longrightarrow>
      updateMemoTags b now i ts memos
        = (Inr (), map (\<lambda>memo. if memo_id memo = i then saved else memo) memos)) \<and>
   (memoRepository_updateMemoTags b now i ts = Inl err \<longrightarrow>
      updateMemoTags b now i ts memos = (Inl err, memos))"
proof -
  have create: "createMemo b uuid now1 now2 formData memos =
      (case memoRepository_addMemo b (newMemo uuid now1 now2 formData) of
         Inr c \<Rightarrow> (Inr c, c # memos) | Inl e \<Rightarrow> (Inl e, memos))"
    by (simp add: createMemo_def)
  have upd_none: "find (\<lambda>memo. memo_id memo = i) memos = None \<longrightarrow>
      updateMemo b now i formData memos = (Inr (), memos)"
    by (simp add: updateMemo_def)
  have upd_some: "find (\<lambda>memo. memo_id memo = i) memos = Some existing \<longrightarrow>
      updateMemo b now i formData memos =
        (case memoRepository_updateMemo b
           (existing \<lparr> title := form_title formData, content := form_content formData,
                       category := form_category formData, tags := form_tags formData,
                       updatedAt := now \<rparr>) of
           Inr sv \<Rightarrow> (Inr (), map (\<lambda>memo. if memo_id memo = i then sv else memo) memos)
         | Inl e \<Rightarrow> (Inl e, memos))"
    by (simp add: updateMemo_def replaceById_def Let_def split: sum.splits)
  have del: "deleteMemo b i memos =
      (case memoRepository_deleteMemo b i of
         Inr u \<Rightarrow> (Inr (), filter (\<lambda>memo. memo_id memo \<noteq> i) memos)
       | Inl e \<Rightarrow> (Inl e, memos))"
    by (simp add: deleteMemo_def)
  have sm: "updateMemoSummary b now i s memos =
      (case memoRepository_updateMemoSummary b now i s of
         Inr sv \<Rightarrow> (Inr (), map (\<lambda>memo. if memo_id memo = i then sv else memo) memos)
       | Inl e \<Rightarrow> (Inl e, memos))"
    by (simp add: updateMemoSummary_def replaceById_def split: sum.splits)
  have tg: "updateMemoTags b now i ts memos =
      (case memoRepository_updateMemoTags b now i ts of
         Inr sv \<Rightarrow> (Inr (), map (\<lambda>memo. if memo_id memo = i then sv else memo) memos)
       | Inl e \<Rightarrow> (Inl e, memos))"
    by (simp add: updateMemoTags_def replaceById_def split: sum.splits)
  show ?thesis
    unfolding create del sm tg using upd_none upd_some by simp
qed

theorem mutations_update_cache_only_on_success_witness:
  "createMemo backend1 ''u'' ''t'' ''t'' formA [memoA, memoB]
     = (Inr memo1, [memo1, memoA, memoB]) \<and>
   createMemo downBackend ''u'' ''t'' ''t'' formA [memoA, memoB]
     = (Inl (Rejected ''fetch failed''), [memoA, memoB]) \<and>
   updateMemo backend1 ''t'' ''missing'' formA [memoA, memoB] = (Inr (), [memoA, memoB]) \<and>
   updateMemo backend1 ''t'' (memo_id memoA) formA [memoA, memoB] = (Inr (), [memo1, memoB]) \<and>
   updateMemo downBackend ''t'' (memo_id memoA) formA [memoA, memoB]
     = (Inl (Rejected ''fetch failed''), [memoA, memoB]) \<and>
   deleteMemo backend1 (memo_id memoA) [memoA, memoB] = (Inr (), [memoB]) \<and>
   deleteMemo downBackend (memo_id memoA) [memoA, memoB]
     = (Inl (Rejected ''fetch failed''), [memoA, memoB]) \<and>
   updateMemoSummary backend1 ''t'' (memo_id memoA) ''S'' [memoA, memoB]
     = (Inr (), [memo1, memoB]) \<and>
   updateMemoSummary downBackend ''t'' (memo_id memoA) ''S'' [memoA, memoB]
     = (Inl (Rejected ''fetch failed''), [memoA, memoB]) \<and>
   updateMemoTags backend1 ''t'' (memo_id memoA) [''x''] [memoA, memoB]
     = (Inr (), [memo1, memoB]) \<and>
   updateMemoTags downBackend ''t'' (memo_id memoA) [''x''] [memoA, memoB]
     = (Inl (Rejected ''fetch failed''), [memoA, memoB])"
proof -
  let ?edited = "memoA \<lparr> title := form_title formA, content := form_content formA,
                          category := form_category formA, tags := form_tags formA,
                          updatedAt := ''t'' \<rparr>"
  let ?down = "Rejected ''fetch failed''"
  note ok = mutations_update_cache_only_on_success
    [where b = backend1 and uuid = "''u''" and ?now1.0 = "''t''" and ?now2.0 = "''t''"
       and formData = formA and memos = "[memoA, memoB]" and created = memo1
       and i = "memo_id memoA" and now = "''t''" and existing = memoA and saved = memo1
       and s = "''S''" and ts = "[''x'']"]
  note missing = mutations_update_cache_only_on_success
    [where b = backend1 and i = "''missing''" and now = "''t''" and formData = formA
       and memos = "[memoA, memoB]"]
  note down = mutations_update_cache_only_on_success
    [where b = downBackend and uuid = "''u''" and ?now1.0 = "''t''" and ?now2.0 = "''t''"
       and formData = formA and memos = "[memoA, memoB]" and err = ?down
       and i = "memo_id memoA" and now = "''t''" and existing = memoA
       and s = "''S''" and ts = "[''x'']"]
  have found: "find (\<lambda>memo. memo_id memo = memo_id memoA) [memoA, memoB] = Some memoA"
    by code_simp
  have absent: "find (\<lambda>memo. memo_id memo = ''missing'') [memoA, memoB] = None"
    by code_simp
  have replaced: "map (\<lambda>memo. if memo_id memo = memo_id memoA then memo1 else memo)
                    [memoA, memoB] = [memo1, memoB]"
    by code_simp
  have removed: "filter (\<lambda>memo. memo_id memo \<noteq> memo_id memoA) [memoA, memoB] = [memoB]"
    by code_simp
  have a1: "memoRepository_addMemo backend1 (newMemo ''u'' ''t'' ''t'' formA) = Inr memo1"
    by code_simp
  have a2: "memoRepository_updateMemo backend1 ?edited = Inr memo1" by code_simp
  have a3: "memoRepository_deleteMemo backend1 (memo_id memoA) = Inr ()" by code_simp
  have a4: "memoRepository_updateMemoSummary backend1 ''t'' (memo_id memoA) ''S'' = Inr memo1"
    by code_simp
  have a5: "memoRepository_updateMemoTags backend1 ''t'' (memo_id memoA) [''x''] = Inr memo1"
    by code_simp
  have d1: "memoRepository_addMemo downBackend (newMemo ''u'' ''t'' ''t'' formA) = Inl ?down"
    by code_simp
  have d2: "memoRepository_updateMemo downBackend ?edited = Inl ?down" by code_simp
  have d3: "memoRepository_deleteMemo downBackend (memo_id memoA) = Inl ?down" by code_simp
  have d4: "memoRepository_updateMemoSummary downBackend ''t'' (memo_id memoA) ''S'' = Inl ?down"
    by code_simp
  have d5: "memoRepository_updateMemoTags downBackend ''t'' (memo_id memoA) [''x''] = Inl ?down"
    by code_simp
  from ok found a1 a2 a3 a4 a5 have
    "createMemo backend1 ''u'' ''t'' ''t'' formA [memoA, memoB]
       = (Inr memo1, [memo1, memoA, memoB])"
    "updateMemo backend1 ''t'' (memo_id memoA) formA [memoA, memoB] = (Inr (), [memo1, memoB])"
    "deleteMemo backend1 (memo_id memoA) [memoA, memoB] = (Inr (), [memoB])"
    "updateMemoSummary backend1 ''t'' (memo_id memoA) ''S'' [memoA, memoB]
       = (Inr (), [memo1, memoB])"
    "updateMemoTags backend1 ''t'' (memo_id memoA) [''x''] [memoA, memoB]
       = (Inr (), [memo1, memoB])"
    unfolding replaced removed by blast+
  moreover from missing absent have
    "updateMemo backend1 ''t'' ''missing'' formA [memoA, memoB] = (Inr (), [memoA, memoB])"
    by blast
  moreover from down found d1 d2 d3 d4 d5 have
    "createMemo downBackend ''u'' ''t'' ''t'' formA [memoA, memoB] = (Inl ?down, [memoA, memoB])"
    "updateMemo downBackend ''t'' (memo_id memoA) formA [memoA, memoB]
       = (Inl ?down, [memoA, memoB])"
    "deleteMemo downBackend (memo_id memoA) [memoA, memoB] = (Inl ?down, [memoA, memoB])"
    "updateMemoSummary downBackend ''t'' (memo_id memoA) ''S'' [memoA, memoB]
       = (Inl ?down, [memoA, memoB])"
    "updateMemoTags downBackend ''t'' (memo_id memoA) [''x''] [memoA, memoB]
       = (Inl ?down, [memoA, memoB])"
    by blast+
  ultimately show ?thesis by blast
qed






section \<open>Properties of the two services\<close>



text \<open>
  C9. A field that is present but is the empty string is falsy in the validation, so
  both services answer exactly as for a missing field, with the same 400 response and no
  call, whatever the environment: a memo with empty content cannot be summarized or
  tagged through these endpoints.
\<close>

theorem empty_string_field_gives_400:
  assumes "memoId = Some (Str []) \<or> ttl = Some (Str []) \<or> cnt = Some (Str [])"
  shows "POST_summary env (Body memoId ttl cnt) = (Response 400 (ErrorBody FieldsRequired), []) \<and>
         POST_tags env (Body memoId ttl cnt) = (Response 400 (ErrorBody FieldsRequired), []) \<and>
         POST_summary env (Body memoId ttl cnt) = POST_summary env (Body None None None) \<and>
         POST_tags env (Body memoId ttl cnt) = POST_tags env (Body None None None)"
proof -
  from assms have "\<not> truthy memoId \<or> \<not> truthy ttl \<or> \<not> truthy cnt"
    by (auto simp: truthy_def)
  moreover have "\<not> truthy None" by (simp add: truthy_def)
  ultimately show ?thesis
    by (simp add: POST_summary_def POST_tags_def)
qed

theorem empty_string_field_gives_400_witness:
  "POST_summary env1 (Body (Some (Str ''m1'')) (Some (Str ''Title'')) (Some (Str '''')))
     = (Response 400 (ErrorBody FieldsRequired), []) \<and>
   POST_tags env1 (Body (Some (Str ''m1'')) (Some (Str ''Title'')) (Some (Str '''')))
     = (Response 400 (ErrorBody FieldsRequired), []) \<and>
   fst (POST_summary env1 (Body (Some (Str ''m1'')) (Some (Str ''Title'')) (Some (Str ''Body''))))
     = Response 200 (SummaryBody (Generated ''[\"a\",\"b\",\"c\"]''))"
proof -
  have "fst (POST_summary env1 (Body (Some (Str ''m1'')) (Some (Str ''Title'')) (Some (Str ''Body''))))
     = Response 200 (SummaryBody (Generated ''[\"a\",\"b\",\"c\"]''))"
    by code_simp
  with empty_string_field_gives_400
         [of "Some (Str ''m1'')" "Some (Str ''Title'')" "Some (Str '''')" env1]
  show ?thesis by simp
qed

text \<open>
  C4. When the three fields are truthy, the credential is set and the completion call
  returns, the response of either service is the 200 response with the generated
  summary (or the parsed tags), whatever the write-back to storage does: it may return
  an error or throw.
\<close>

theorem writeback_failure_keeps_200_response:
  assumes "truthy memoId" and "truthy ttl" and "truthy cnt"
    and "apiKeyOf env = Some k"
  shows "(generateContent env (GenerateContent k (SummaryPrompt ttl cnt) 500) = LlmResponse t \<longrightarrow>
            fst (POST_summary (env \<lparr> updateMemos := db \<rparr>) (Body memoId ttl cnt))
              = Response 200 (SummaryBody (summaryOf t))) \<and>
         (generateContent env (GenerateContent k (TagsPrompt ttl cnt) 200) = LlmResponse t \<longrightarrow>
            fst (POST_tags (env \<lparr> updateMemos := db \<rparr>) (Body memoId ttl cnt))
              = Response 200 (TagsBody (parseTags t)))"
proof -
  from assms(4) have key: "apiKeyOf (env \<lparr> updateMemos := db \<rparr>) = Some k"
    by (simp add: apiKeyOf_def)
  show ?thesis
    using assms(1-3) key by (simp add: POST_summary_def POST_tags_def Let_def)
qed

theorem writeback_failure_keeps_200_response_witness:
  "truthy (Some (Str ''m1'')) \<and> truthy (Some (Str ''Title'')) \<and> truthy (Some (Str ''Body'')) \<and>
   apiKeyOf env1 = Some ''key'' \<and>
   generateContent env1
     (GenerateContent ''key'' (SummaryPrompt (Some (Str ''Title'')) (Some (Str ''Body''))) 500)
     = LlmResponse (Some ''[\"a\",\"b\",\"c\"]'') \<and>
   generateContent env1
     (GenerateContent ''key'' (TagsPrompt (Some (Str ''Title'')) (Some (Str ''Body''))) 200)
     = LlmResponse (Some ''[\"a\",\"b\",\"c\"]'') \<and>
   fst (POST_summary (env1 \<lparr> updateMemos := (\<lambda>w. DbThrows) \<rparr>) request1)
     = Response 200 (SummaryBody (Generated ''[\"a\",\"b\",\"c\"]'')) \<and>
   fst (POST_tags (env1 \<lparr> updateMemos := (\<lambda>w. DbResolves (Some denied)) \<rparr>) request1)
     = Response 200 (TagsBody [ofString ''a'', ofString ''b'', ofString ''c''])"
proof -
  let ?ttl = "Some (Str ''Title'')" and ?cnt = "Some (Str ''Body'')"
  have h: "truthy (Some (Str ''m1''))" "truthy ?ttl" "truthy ?cnt"
    by (simp_all add: truthy_def)
  have k: "apiKeyOf env1 = Some ''key''" by (simp add: apiKeyOf_def env1_def)
  have g1: "generateContent env1 (GenerateContent ''key'' (SummaryPrompt ?ttl ?cnt) 500)
              = LlmResponse (Some ''[\"a\",\"b\",\"c\"]'')"
    by (simp add: env1_def)
  have g2: "generateContent env1 (GenerateContent ''key'' (TagsPrompt ?ttl ?cnt) 200)
              = LlmResponse (Some ''[\"a\",\"b\",\"c\"]'')"
    by (simp add: env1_def)
  have s: "summaryOf (Some ''[\"a\",\"b\",\"c\"]'') = Generated ''[\"a\",\"b\",\"c\"]''"
    by (simp add: summaryOf_def)
  have p: "parseTags (Some ''[\"a\",\"b\",\"c\"]'') = [ofString ''a'', ofString ''b'', ofString ''c'']"
    by code_simp
  from writeback_failure_keeps_200_response [OF h k, of "Some ''[\"a\",\"b\",\"c\"]''" "\<lambda>w. DbThrows"] g1
  have r1: "fst (POST_summary (env1 \<lparr> updateMemos := (\<lambda>w. DbThrows) \<rparr>) request1)
              = Response 200 (SummaryBody (Generated ''[\"a\",\"b\",\"c\"]''))"
    unfolding request1_def s by blast
  from writeback_failure_keeps_200_response
         [OF h k, of "Some ''[\"a\",\"b\",\"c\"]''" "\<lambda>w. DbResolves (Some denied)"] g2
  have r2: "fst (POST_tags (env1 \<lparr> updateMemos := (\<lambda>w. DbResolves (Some denied)) \<rparr>) request1)
              = Response 200 (TagsBody [ofString ''a'', ofString ''b'', ofString ''c''])"
    unfolding request1_def p by blast
  from h k g1 g2 r1 r2 show ?thesis by blast
qed


section \<open>Properties of the tag parsing\<close>

text \<open>
  The match of \<open>/\[.*?\]/s\<close>: it starts at the first \<open>[\<close> of the text and ends at
  the first \<open>]\<close> after it, and there is none exactly when no \<open>[\<close> is followed by a
  \<open>]\<close>.
\<close>

lemma upToClose_None: "upToClose cs = None \<longleftrightarrow> CHR '']'' \<notin> set cs"
  by (induction cs) auto

lemma upToClose_Some:
  "upToClose cs = Some m \<longleftrightarrow>
     (\<exists>body post. cs = body @ CHR '']'' # post \<and> CHR '']'' \<notin> set body \<and> m = body @ [CHR '']''])"
proof (induction cs arbitrary: m)
  case Nil
  then show ?case by simp
next
  case (Cons c cs)
  show ?case
  proof (cases "c = CHR '']''")
    case True
    have "(\<exists>body post. c # cs = body @ CHR '']'' # post \<and> CHR '']'' \<notin> set body \<and>
             m = body @ [CHR '']'']) \<longleftrightarrow> m = [CHR '']'']"
    proof
      assume "\<exists>body post. c # cs = body @ CHR '']'' # post \<and> CHR '']'' \<notin> set body \<and>
                m = body @ [CHR '']'']"
      then obtain body post where b: "c # cs = body @ CHR '']'' # post"
        "CHR '']'' \<notin> set body" "m = body @ [CHR '']'']" by blast
      from b(1,2) True have "body = []" by (cases body) auto
      with b(3) show "m = [CHR '']'']" by simp
    next
      assume "m = [CHR '']'']"
      with True have "c # cs = [] @ CHR '']'' # cs \<and> CHR '']'' \<notin> set [] \<and> m = [] @ [CHR '']'']"
        by simp
      then show "\<exists>body post. c # cs = body @ CHR '']'' # post \<and> CHR '']'' \<notin> set body \<and>
                m = body @ [CHR '']'']" by blast
    qed
    with True show ?thesis by auto
  next
    case False
    have "(\<exists>body post. c # cs = body @ CHR '']'' # post \<and> CHR '']'' \<notin> set body \<and>
             m = body @ [CHR '']'']) \<longleftrightarrow>
          (\<exists>m'. m = c # m' \<and> (\<exists>body post. cs = body @ CHR '']'' # post \<and>
             CHR '']'' \<notin> set body \<and> m' = body @ [CHR '']'']))"
    proof
      assume "\<exists>body post. c # cs = body @ CHR '']'' # post \<and> CHR '']'' \<notin> set body \<and>
                m = body @ [CHR '']'']"
      then obtain body post where b: "c # cs = body @ CHR '']'' # post"
        "CHR '']'' \<notin> set body" "m = body @ [CHR '']'']" by blast
      from b(1) False obtain body' where body: "body = c # body'" by (cases body) auto
      with b have "m = c # (body' @ [CHR '']'']) \<and> cs = body' @ CHR '']'' # post \<and>
                   CHR '']'' \<notin> set body'" by simp
      then show "\<exists>m'. m = c # m' \<and> (\<exists>body post. cs = body @ CHR '']'' # post \<and>
             CHR '']'' \<notin> set body \<and> m' = body @ [CHR '']''])" by blast
    next
      assume "\<exists>m'. m = c # m' \<and> (\<exists>body post. cs = body @ CHR '']'' # post \<and>
             CHR '']'' \<notin> set body \<and> m' = body @ [CHR '']''])"
      then obtain body post where b: "cs = body @ CHR '']'' # post" "CHR '']'' \<notin> set body"
        "m = c # body @ [CHR '']'']" by blast
      with False have "c # cs = (c # body) @ CHR '']'' # post \<and> CHR '']'' \<notin> set (c # body) \<and>
                       m = (c # body) @ [CHR '']'']" by simp
      then show "\<exists>body post. c # cs = body @ CHR '']'' # post \<and> CHR '']'' \<notin> set body \<and>
                m = body @ [CHR '']'']" by blast
    qed
    then have eq: "(\<exists>body post. c # cs = body @ CHR '']'' # post \<and> CHR '']'' \<notin> set body \<and>
             m = body @ [CHR '']'']) \<longleftrightarrow> (\<exists>m'. m = c # m' \<and> upToClose cs = Some m')"
      by (simp only: Cons.IH)
    have step: "upToClose (c # cs) = Some m \<longleftrightarrow> (\<exists>m'. m = c # m' \<and> upToClose cs = Some m')"
      using False by (cases "upToClose cs") auto
    show ?thesis by (simp only: step eq)
  qed
qed

lemma jsonMatch_Some:
  "jsonMatch s = Some m \<longleftrightarrow>
     (\<exists>pre body post. s = pre @ CHR ''['' # body @ CHR '']'' # post \<and>
        CHR ''['' \<notin> set pre \<and> CHR '']'' \<notin> set body \<and> m = CHR ''['' # body @ [CHR '']''])"
  (is "?L s \<longleftrightarrow> ?R s")
proof (induction s)
  case Nil
  then show ?case by simp
next
  case (Cons c cs)
  show ?case
  proof (cases "c = CHR ''[''")
    case True
    have "?R (c # cs) \<longleftrightarrow> (\<exists>m'. m = c # m' \<and> upToClose cs = Some m')"
    proof
      assume "?R (c # cs)"
      then obtain pre body post where b: "c # cs = pre @ CHR ''['' # body @ CHR '']'' # post"
        "CHR ''['' \<notin> set pre" "CHR '']'' \<notin> set body" "m = CHR ''['' # body @ [CHR '']'']"
        by blast
      from b(1,2) True have "pre = []" by (cases pre) auto
      with b True have "m = c # (body @ [CHR '']'']) \<and> cs = body @ CHR '']'' # post" by simp
      with b(3) show "\<exists>m'. m = c # m' \<and> upToClose cs = Some m'"
        unfolding upToClose_Some by blast
    next
      assume "\<exists>m'. m = c # m' \<and> upToClose cs = Some m'"
      then obtain body post where b: "cs = body @ CHR '']'' # post" "CHR '']'' \<notin> set body"
        "m = c # body @ [CHR '']'']"
        unfolding upToClose_Some by blast
      with True have "c # cs = [] @ CHR ''['' # body @ CHR '']'' # post \<and> CHR ''['' \<notin> set [] \<and>
          CHR '']'' \<notin> set body \<and> m = CHR ''['' # body @ [CHR '']'']" by simp
      then show "?R (c # cs)" by blast
    qed
    then have eq: "?R (c # cs) \<longleftrightarrow> (\<exists>m'. m = c # m' \<and> upToClose cs = Some m')" .
    have step: "jsonMatch (c # cs) = Some m \<longleftrightarrow> (\<exists>m'. m = c # m' \<and> upToClose cs = Some m')"
      using True by (cases "upToClose cs") auto
    show ?thesis by (simp only: step eq)
  next
    case False
    have "?R (c # cs) \<longleftrightarrow> ?R cs"
    proof
      assume "?R (c # cs)"
      then obtain pre body post where b: "c # cs = pre @ CHR ''['' # body @ CHR '']'' # post"
        "CHR ''['' \<notin> set pre" "CHR '']'' \<notin> set body" "m = CHR ''['' # body @ [CHR '']'']"
        by blast
      from b(1) False obtain pre' where "pre = c # pre'" by (cases pre) auto
      with b have "cs = pre' @ CHR ''['' # body @ CHR '']'' # post \<and> CHR ''['' \<notin> set pre'"
        by simp
      with b(3,4) show "?R cs" by blast
    next
      assume "?R cs"
      then obtain pre body post where b: "cs = pre @ CHR ''['' # body @ CHR '']'' # post"
        "CHR ''['' \<notin> set pre" "CHR '']'' \<notin> set body" "m = CHR ''['' # body @ [CHR '']'']"
        by blast
      with False have "c # cs = (c # pre) @ CHR ''['' # body @ CHR '']'' # post \<and>
          CHR ''['' \<notin> set (c # pre)" by simp
      with b(3,4) show "?R (c # cs)" by blast
    qed
    with False Cons.IH show ?thesis by simp
  qed
qed

lemma jsonMatch_None:
  "jsonMatch s = None \<longleftrightarrow>
     \<not> (\<exists>pre mid post. s = pre @ CHR ''['' # mid @ CHR '']'' # post)"
proof (induction s)
  case Nil
  then show ?case by simp
next
  case (Cons c cs)
  show ?case
  proof (cases "c = CHR ''[''")
    case True
    have "(\<exists>pre mid post. c # cs = pre @ CHR ''['' # mid @ CHR '']'' # post)
            \<longleftrightarrow> CHR '']'' \<in> set cs"
    proof
      assume "\<exists>pre mid post. c # cs = pre @ CHR ''['' # mid @ CHR '']'' # post"
      then obtain pre mid post where b: "c # cs = pre @ CHR ''['' # mid @ CHR '']'' # post"
        by blast
      then have "CHR '']'' \<in> set (tl (pre @ CHR ''['' # mid @ CHR '']'' # post))"
        by (cases pre) auto
      with b show "CHR '']'' \<in> set cs" by (metis list.sel(3))
    next
      assume "CHR '']'' \<in> set cs"
      then obtain mid post where "cs = mid @ CHR '']'' # post" by (auto simp: in_set_conv_decomp)
      with True have "c # cs = [] @ CHR ''['' # mid @ CHR '']'' # post" by simp
      then show "\<exists>pre mid post. c # cs = pre @ CHR ''['' # mid @ CHR '']'' # post" by blast
    qed
    with True show ?thesis by (simp add: upToClose_None)
  next
    case False
    have "(\<exists>pre mid post. c # cs = pre @ CHR ''['' # mid @ CHR '']'' # post)
            \<longleftrightarrow> (\<exists>pre mid post. cs = pre @ CHR ''['' # mid @ CHR '']'' # post)"
    proof
      assume "\<exists>pre mid post. c # cs = pre @ CHR ''['' # mid @ CHR '']'' # post"
      then obtain pre mid post where b: "c # cs = pre @ CHR ''['' # mid @ CHR '']'' # post"
        by blast
      with False obtain pre' where "pre = c # pre'" by (cases pre) auto
      with b have "cs = pre' @ CHR ''['' # mid @ CHR '']'' # post" by simp
      then show "\<exists>pre mid post. cs = pre @ CHR ''['' # mid @ CHR '']'' # post" by blast
    next
      assume "\<exists>pre mid post. cs = pre @ CHR ''['' # mid @ CHR '']'' # post"
      then obtain pre mid post where "cs = pre @ CHR ''['' # mid @ CHR '']'' # post" by blast
      then have "c # cs = (c # pre) @ CHR ''['' # mid @ CHR '']'' # post" by simp
      then show "\<exists>pre mid post. c # cs = pre @ CHR ''['' # mid @ CHR '']'' # post" by blast
    qed
    with False Cons.IH show ?thesis by simp
  qed
qed

lemma length_fallbackLines: "length (fallbackLines text) \<le> 5"
  by (simp add: fallbackLines_def)


lemma splitLines_no_separator:
  "p \<in> set (splitLines s) \<Longrightarrow> CHR '','' \<notin> set p \<and> CHR 0x0A \<notin> set p"
  by (induction s arbitrary: p) (auto split: list.splits if_splits)

lemma parseTags_no_match:
  "jsonMatch (responseTextOf t) = None \<Longrightarrow>
   parseTags t = map ofString (fallbackLines (responseTextOf t))"
  by (simp add: parseTags_def Let_def)

lemma parseTags_match:
  "jsonMatch (responseTextOf t) = Some m \<Longrightarrow>
   parseTags t = (case JSON_parse m of Some (JArray ts) \<Rightarrow> ts | _ \<Rightarrow> [])"
  by (simp add: parseTags_def Let_def split: option.splits json.splits)

text \<open>
  C8. When the answer contains a JSON-array substring and it parses to an array, that
  array is the tag list as it is: it is not cut to five entries and its elements are not
  required to be strings. Only the fallback on commas and newlines keeps at most five.
\<close>

theorem parsed_array_is_used_unchanged:
  "(jsonMatch (responseTextOf t) = Some m \<and> JSON_parse m = Some (JArray ts) \<longrightarrow>
      parseTags t = ts) \<and>
   (jsonMatch (responseTextOf t) = None \<longrightarrow> length (parseTags t) \<le> 5)"
  by (simp add: parseTags_match parseTags_no_match length_fallbackLines)

theorem parsed_array_is_used_unchanged_witness:
  "jsonMatch (responseTextOf (Some ''Tags: [\"a\",\"b\",\"c\",\"d\",\"e\",\"f\"]''))
     = Some ''[\"a\",\"b\",\"c\",\"d\",\"e\",\"f\"]'' \<and>
   parseTags (Some ''Tags: [\"a\",\"b\",\"c\",\"d\",\"e\",\"f\"]'')
     = [ofString ''a'', ofString ''b'', ofString ''c'', ofString ''d'', ofString ''e'',
        ofString ''f''] \<and>
   length (parseTags (Some ''Tags: [\"a\",\"b\",\"c\",\"d\",\"e\",\"f\"]'')) = 6 \<and>
   jsonMatch (responseTextOf (Some ''[1, true, null, {\"k\": 2}]''))
     = Some ''[1, true, null, {\"k\": 2}]'' \<and>
   parseTags (Some ''[1, true, null, {\"k\": 2}]'')
     = [JNumber ''1'', JBool True, JNull, JObject [(map of_char ''k'', JNumber ''2'')]] \<and>
   jsonMatch (responseTextOf (Some ''a,b,c,d,e,f,g'')) = None \<and>
   length (parseTags (Some ''a,b,c,d,e,f,g'')) \<le> 5"
proof -
  let ?six = "[ofString ''a'', ofString ''b'', ofString ''c'', ofString ''d'', ofString ''e'',
               ofString ''f'']"
  let ?mixed = "[JNumber ''1'', JBool True, JNull, JObject [(map of_char ''k'', JNumber ''2'')]]"
  have m1: "jsonMatch (responseTextOf (Some ''Tags: [\"a\",\"b\",\"c\",\"d\",\"e\",\"f\"]''))
              = Some ''[\"a\",\"b\",\"c\",\"d\",\"e\",\"f\"]''"
    by code_simp
  have p1: "JSON_parse ''[\"a\",\"b\",\"c\",\"d\",\"e\",\"f\"]'' = Some (JArray ?six)"
    by code_simp
  have m2: "jsonMatch (responseTextOf (Some ''[1, true, null, {\"k\": 2}]''))
              = Some ''[1, true, null, {\"k\": 2}]''"
    by code_simp
  have p2: "JSON_parse ''[1, true, null, {\"k\": 2}]'' = Some (JArray ?mixed)"
    by code_simp
  have m3: "jsonMatch (responseTextOf (Some ''a,b,c,d,e,f,g'')) = None"
    by code_simp
  from m1 p1 parsed_array_is_used_unchanged
    [of "Some ''Tags: [\"a\",\"b\",\"c\",\"d\",\"e\",\"f\"]''" _ ?six]
  have r1: "parseTags (Some ''Tags: [\"a\",\"b\",\"c\",\"d\",\"e\",\"f\"]'') = ?six"
    by blast
  from m2 p2 parsed_array_is_used_unchanged [of "Some ''[1, true, null, {\"k\": 2}]''" _ ?mixed]
  have r2: "parseTags (Some ''[1, true, null, {\"k\": 2}]'') = ?mixed"
    by blast
  from m3 parsed_array_is_used_unchanged [of "Some ''a,b,c,d,e,f,g''"]
  have r3: "length (parseTags (Some ''a,b,c,d,e,f,g'')) \<le> 5"
    by blast
  from r1 have l1: "length (parseTags (Some ''Tags: [\"a\",\"b\",\"c\",\"d\",\"e\",\"f\"]'')) = 6"
    by simp
  from m1 m2 m3 r1 r2 r3 l1 show ?thesis by blast
qed




end
